theory Spec2Isabelle
  imports Main "HOL-Library.AList" "HOL-Library.Multiset"
    "HOL-Library.Char_ord" "HOL-Library.List_Lexorder"
begin

section \<open>Strings\<close>

text \<open>
  A Python \<open>str\<close> is a sequence of code points. The model covers the strings whose code
  points are below 256: a \<open>char\<close> stands for the code point \<open>of_char c\<close>. The tables below
  are those of Python's \<open>str.isspace\<close> and \<open>str.lower\<close> on that range.
\<close>

definition isspace :: "char \<Rightarrow> bool" where
  "isspace c = (of_char c \<in> {9, 10, 11, 12, 13, 28, 29, 30, 31, 32, 133, 160 :: nat})"

definition strip :: "string \<Rightarrow> string" where
  "strip s = rev (dropWhile isspace (rev (dropWhile isspace s)))"

definition lower_char :: "char \<Rightarrow> char" where
  "lower_char c =
     (let n = of_char c :: nat
      in if (65 \<le> n \<and> n \<le> 90) \<or> (192 \<le> n \<and> n \<le> 222 \<and> n \<noteq> 215)
         then char_of (n + 32) else c)"

definition lower :: "string \<Rightarrow> string" where
  "lower s = map lower_char s"

text \<open>\<open>sep.join(xs)\<close>\<close>

fun join :: "string \<Rightarrow> string list \<Rightarrow> string" where
  "join sep [] = []"
| "join sep [x] = x"
| "join sep (x # y # ys) = x @ sep @ join sep (y # ys)"

text \<open>\<open>d.get(k, default)\<close> on a dictionary literal, kept as the list of its items.\<close>

definition dict_get :: "('k \<times> 'v) list \<Rightarrow> 'k \<Rightarrow> 'v \<Rightarrow> 'v" where
  "dict_get d k dflt = (case map_of d k of None \<Rightarrow> dflt | Some v \<Rightarrow> v)"

section \<open>The content synthesizer (main.py)\<close>

definition base :: "string \<Rightarrow> string list" where
  "base topic =
     [''Introduction'',
      ''Why '' @ topic @ '' Matters'',
      ''Key Principles of '' @ topic,
      ''Practical Tips for '' @ topic,
      ''Common Mistakes to Avoid'',
      ''Conclusion'']"

definition generate_outline :: "string \<Rightarrow> string \<Rightarrow> string list" where
  "generate_outline topic len =
     (if len = ''short'' then take 4 (base topic)
      else if len = ''long''
        then base topic @ [''Case Study: '' @ topic @ '' in Action'', ''Resources & Next Steps'']
      else base topic)"

definition title_prefixes :: "(string \<times> string) list" where
  "title_prefixes =
     [(''Professional'', ''A Practical Guide to''),
      (''Friendly'', ''Getting Started with''),
      (''Technical'', ''In-Depth Look at''),
      (''Persuasive'', ''Why You Should Care About'')]"

definition generate_title :: "string \<Rightarrow> string \<Rightarrow> string" where
  "generate_title topic tone =
     (let prefix = dict_get title_prefixes tone ''A Practical Guide to''
      in prefix @ '' '' @ topic)"

definition styles :: "(string \<times> string) list" where
  "styles =
     [(''Professional'', ''Clear and concise''),
      (''Friendly'', ''Conversational and approachable''),
      (''Technical'', ''Detailed and precise''),
      (''Persuasive'', ''Benefit-oriented and motivating'')]"

text \<open>
  \<open>keywords\<close> and \<open>audience\<close> are tested for truth: an empty list, \<open>None\<close> and the empty
  string are false.
\<close>

definition generate_paragraph ::
  "string \<Rightarrow> string \<Rightarrow> string \<Rightarrow> string option \<Rightarrow> string list \<Rightarrow> string" where
  "generate_paragraph heading topic tone audience keywords =
     (let style = dict_get styles tone ''Clear and concise'';
          kw = (if keywords \<noteq> [] then join '', '' (take 3 keywords) else topic);
          aud = (case audience of
                   None \<Rightarrow> []
                 | Some a \<Rightarrow> if a \<noteq> [] then '' for '' @ a else [])
      in heading @ '': '' @ style @ '' overview of '' @ topic @ aud @ ''. ''
         @ ''This section explores key ideas, practical insights, and examples. ''
         @ ''Keywords to focus on: '' @ kw @ ''.'')"

abbreviation nl :: string where
  "nl \<equiv> [CHR 0x0A]"

text \<open>The loop of \<open>generate_content\<close>: one \<open>append\<close> to \<open>paragraphs\<close> per heading.\<close>

fun content_loop ::
  "string \<Rightarrow> string \<Rightarrow> string option \<Rightarrow> string list \<Rightarrow> string list \<Rightarrow> string list \<Rightarrow> string list" where
  "content_loop topic tone audience keywords [] paragraphs = paragraphs"
| "content_loop topic tone audience keywords (h # hs) paragraphs =
     content_loop topic tone audience keywords hs
       (paragraphs @
        [''## '' @ h @ nl @ nl @ generate_paragraph h topic tone audience keywords @ nl])"

definition paragraphs_of ::
  "string \<Rightarrow> string \<Rightarrow> string list \<Rightarrow> string option \<Rightarrow> string list \<Rightarrow> string list" where
  "paragraphs_of topic tone outline audience keywords =
     content_loop topic tone audience keywords outline []"

definition generate_content ::
  "string \<Rightarrow> string \<Rightarrow> string list \<Rightarrow> string option \<Rightarrow> string list \<Rightarrow> string" where
  "generate_content topic tone outline audience keywords =
     join nl (paragraphs_of topic tone outline audience keywords)"

section \<open>Requests, posts and responses\<close>

text \<open>\<open>GenerateRequest\<close> and \<open>GenerateResponse\<close> of main.py, \<open>BlogPost\<close> of schemas.py.\<close>

record GenerateRequest =
  req_topic :: string
  req_tone :: string
  req_keywords :: "string list option"
  req_length :: "string option"
  req_audience :: "string option"

record BlogPost =
  post_title :: string
  post_topic :: string
  post_tone :: string
  post_keywords :: "string list"
  post_outline :: "string list"
  post_content :: string
  post_length :: "string option"
  post_audience :: "string option"
  post_status :: string

record GenerateResponse =
  resp_id :: string
  resp_title :: string
  resp_outline :: "string list"
  resp_content :: string
  resp_topic :: string
  resp_tone :: string
  resp_keywords :: "string list"
  resp_length :: "string option"
  resp_audience :: "string option"
  resp_created_at :: nat

datatype error = HTTPException nat string | StoreUnavailable

section \<open>Stored documents\<close>

text \<open>
  The values a stored document holds: \<open>None\<close>, strings, lists of strings, times and store
  identifiers. \<open>PDatetime t\<close> is a naive \<open>datetime\<close>, given by its distance \<open>t\<close> from
  \<open>datetime.min\<close>, so \<open>PDatetime 0\<close> is \<open>datetime.min\<close>; \<open>PAware t\<close> is a timezone-aware
  \<open>datetime\<close>, given by the distance of its instant from \<open>datetime.min\<close> in UTC. A document
  is a dictionary, kept as the list of its items in insertion order.
\<close>

datatype pyval =
  PNone | PStr string | PList "string list" | PDatetime nat | PAware nat | PObjectId string

type_synonym doc = "(string \<times> pyval) list"

text \<open>
  \<open>str(v)\<close>. A string is its own rendering and an identifier renders as its hexadecimal
  digits; the renderings of lists and times play no part in the endpoints and are left open.
\<close>

fun py_str :: "pyval \<Rightarrow> string" where
  "py_str (PStr s) = s"
| "py_str (PObjectId h) = h"
| "py_str PNone = ''None''"

text \<open>
  \<open>a < b\<close>, which is all that \<open>list.sort\<close> asks of its keys. Values of one orderable type
  compare; \<open>None\<close> compares with nothing, and neither do values of two different types,
  nor a naive time with an aware one: the result \<open>None\<close> stands for the \<open>TypeError\<close>
  Python raises. Strings and lists compare lexicographically, identifiers by their digits,
  aware times by their instants.
\<close>

fun py_lt :: "pyval \<Rightarrow> pyval \<Rightarrow> bool option" where
  "py_lt (PStr a) (PStr b) = Some (a < b)"
| "py_lt (PList a) (PList b) = Some (a < b)"
| "py_lt (PDatetime a) (PDatetime b) = Some (a < b)"
| "py_lt (PAware a) (PAware b) = Some (a < b)"
| "py_lt (PObjectId a) (PObjectId b) = Some (a < b)"
| "py_lt _ _ = None"

section \<open>The document store\<close>

text \<open>
  Modelled from the spec: the module \<open>database\<close> (\<open>create_document\<close>, \<open>get_documents\<close>) is
  not among the sources. Section 4.2 of the specification: \<open>create\<close> assigns a new unique
  identifier, stores the record with an implicit creation timestamp and returns the
  identifier as a string; \<open>list\<close> returns at most \<open>limit\<close> records matching the filter, in
  the store's own order; both fail with StoreUnavailable when the store cannot be reached.
  The store's clock is the argument \<open>t\<close>; identifiers are the 24 hexadecimal digits of a
  counter.
\<close>

record store =
  available :: bool
  documents :: "(string \<times> doc) list"
  next_id :: nat

definition hexdigit :: "nat \<Rightarrow> char" where
  "hexdigit d = ''0123456789abcdef'' ! (d mod 16)"

fun hexn :: "nat \<Rightarrow> nat \<Rightarrow> string" where
  "hexn 0 n = []"
| "hexn (Suc k) n = hexn k (n div 16) @ [hexdigit n]"

definition opt_val :: "string option \<Rightarrow> pyval" where
  "opt_val v = (case v of None \<Rightarrow> PNone | Some s \<Rightarrow> PStr s)"

definition post_to_doc :: "BlogPost \<Rightarrow> doc" where
  "post_to_doc p =
     [(''title'', PStr (post_title p)),
      (''topic'', PStr (post_topic p)),
      (''tone'', PStr (post_tone p)),
      (''keywords'', PList (post_keywords p)),
      (''outline'', PList (post_outline p)),
      (''content'', PStr (post_content p)),
      (''length'', opt_val (post_length p)),
      (''audience'', opt_val (post_audience p)),
      (''status'', PStr (post_status p))]"

text \<open>
  Modelled from the spec: \<open>create_document\<close> of the absent module \<open>database\<close>. It fails
  when the store is unavailable; otherwise it stores the post's fields with a creation time
  and a fresh identifier, and returns the identifier as a string.
\<close>

definition create_document :: "store \<Rightarrow> nat \<Rightarrow> string \<Rightarrow> BlogPost \<Rightarrow> error + string \<times> store" where
  "create_document st t collection_name post =
     (if \<not> available st then Inl StoreUnavailable
      else
        let oid = hexn 24 (next_id st);
            d = post_to_doc post @ [(''created_at'', PDatetime t), (''_id'', PObjectId oid)]
        in Inr (oid, st\<lparr>documents := documents st @ [(collection_name, d)],
                         next_id := Suc (next_id st)\<rparr>))"

text \<open>
  Modelled from the spec: \<open>get_documents\<close> of the absent module \<open>database\<close>. It fails
  when the store is unavailable; otherwise it returns, in the store's order, at most
  \<open>limit\<close> documents of the collection that match the filter (every item of the filter is
  an item of the document; the endpoint passes the empty filter).
\<close>

definition matches :: "doc \<Rightarrow> doc \<Rightarrow> bool" where
  "matches filter_dict d = list_all (\<lambda>(k, v). map_of d k = Some v) filter_dict"

definition get_documents :: "store \<Rightarrow> string \<Rightarrow> doc \<Rightarrow> int \<Rightarrow> error + doc list" where
  "get_documents st collection_name filter_dict limit =
     (if \<not> available st then Inl StoreUnavailable
      else Inr (take (nat limit)
                  (filter (matches filter_dict)
                     (map snd (filter (\<lambda>(c, d). c = collection_name) (documents st))))))"

section \<open>POST /api/generate\<close>

text \<open>
  \<open>generate_blog\<close> returns the response or the error raised, and the store as the request
  leaves it. \<open>t_store\<close> is the store's clock when the document is created, \<open>t_now\<close> the value
  of \<open>datetime.utcnow()\<close> when the response is built.
\<close>

definition generate_blog ::
  "store \<Rightarrow> nat \<Rightarrow> nat \<Rightarrow> GenerateRequest \<Rightarrow> (error + GenerateResponse) \<times> store" where
  "generate_blog st t_store t_now req =
     (let topic = strip (req_topic req)
      in if topic = [] then (Inl (HTTPException 400 ''Topic cannot be empty''), st)
      else
        let tone = (if req_tone req \<noteq> [] then strip (req_tone req) else ''Professional'');
            len0 = lower (case req_length req of
                            None \<Rightarrow> ''medium''
                          | Some l \<Rightarrow> if l \<noteq> [] then l else ''medium'');
            len = (if len0 \<notin> {''short'', ''medium'', ''long''} then ''medium'' else len0);
            keywords = map strip (filter (\<lambda>k. strip k \<noteq> [])
                         (case req_keywords req of None \<Rightarrow> [] | Some ks \<Rightarrow> ks));
            outline = generate_outline topic len;
            title = generate_title topic tone;
            content = generate_content topic tone outline (req_audience req) keywords;
            post = \<lparr>post_title = title, post_topic = topic, post_tone = tone,
                    post_keywords = keywords, post_outline = outline, post_content = content,
                    post_length = Some len, post_audience = req_audience req,
                    post_status = ''generated''\<rparr>
        in case create_document st t_store ''blogpost'' post of
             Inl e \<Rightarrow> (Inl e, st)
           | Inr (new_id, st') \<Rightarrow>
               (Inr \<lparr>resp_id = new_id, resp_title = title, resp_outline = outline,
                     resp_content = content, resp_topic = topic, resp_tone = tone,
                     resp_keywords = keywords, resp_length = Some len,
                     resp_audience = req_audience req, resp_created_at = t_now\<rparr>, st'))"

section \<open>GET /api/posts\<close>

text \<open>The sort key, \<open>d.get("created_at", datetime.min)\<close>.\<close>

definition created_key :: "doc \<Rightarrow> pyval" where
  "created_key d = dict_get d ''created_at'' (PDatetime 0)"

definition doc_lt :: "doc \<Rightarrow> doc \<Rightarrow> bool" where
  "doc_lt a b = (py_lt (created_key a) (created_key b) = Some True)"

text \<open>
  \<open>docs.sort(key=..., reverse=True)\<close>. A sort of two or more items compares every item with
  some other, and the keys that compare without error are those of one orderable type; so
  the sort raises exactly when the list has two items or more and some two keys do not
  compare. When it does not raise, the result is the stable sort: the list is reversed,
  sorted upwards with equal keys kept in their order, and reversed again.

  When a comparison raises, Python leaves the list "in a partially modified state": the
  items are all there, in an order that depends on the sorting algorithm and on how far it
  had come. That order is the parameter \<open>left\<close> of the model. As a sort only moves
  items, \<open>left\<close> is read as a rearrangement: where it gives anything else, the list is
  taken as it was (\<open>left_by\<close>).
\<close>

datatype exn = TypeError

definition sort_raises :: "doc list \<Rightarrow> bool" where
  "sort_raises ds =
     (2 \<le> length ds \<and>
      list_ex (\<lambda>a. list_ex (\<lambda>b. py_lt (created_key a) (created_key b) = None) ds) ds)"

fun insort_lt :: "('a \<Rightarrow> 'a \<Rightarrow> bool) \<Rightarrow> 'a \<Rightarrow> 'a list \<Rightarrow> 'a list" where
  "insort_lt lt x [] = [x]"
| "insort_lt lt x (y # ys) = (if lt x y then x # y # ys else y # insort_lt lt x ys)"

definition stable_sort :: "('a \<Rightarrow> 'a \<Rightarrow> bool) \<Rightarrow> 'a list \<Rightarrow> 'a list" where
  "stable_sort lt xs = foldl (\<lambda>acc x. insort_lt lt x acc) [] xs"

definition left_by :: "(doc list \<Rightarrow> doc list) \<Rightarrow> doc list \<Rightarrow> doc list" where
  "left_by left ds = (if mset (left ds) = mset ds then left ds else ds)"

definition list_sort :: "(doc list \<Rightarrow> doc list) \<Rightarrow> doc list \<Rightarrow> exn option \<times> doc list" where
  "list_sort left ds =
     (if sort_raises ds then (Some TypeError, left_by left ds)
      else (None, rev (stable_sort doc_lt (rev ds))))"

text \<open>
  The body of the cleanup loop: \<open>d = dict(d)\<close>, then \<open>d["id"] = str(d.pop("_id"))\<close> when
  \<open>d.get("_id")\<close> is not \<open>None\<close>.
\<close>

definition clean_record :: "doc \<Rightarrow> doc" where
  "clean_record d =
     (case map_of d ''_id'' of
        None \<Rightarrow> d
      | Some v \<Rightarrow>
          if v \<noteq> PNone then AList.update ''id'' (PStr (py_str v)) (AList.delete ''_id'' d)
          else d)"

definition list_posts :: "(doc list \<Rightarrow> doc list) \<Rightarrow> store \<Rightarrow> int \<Rightarrow> error + doc list" where
  "list_posts left st limit =
     (case get_documents st ''blogpost'' [] limit of
        Inl e \<Rightarrow> Inl e
      | Inr docs \<Rightarrow>
          (case list_sort left docs of
             (_, docs') \<Rightarrow> Inr (map clean_record docs')))"

subsection \<open>Creation times\<close>





subsection \<open>The order an interrupted sort leaves, in CPython\<close>

text \<open>
  CPython 3.11 sorts a list of fewer than 64 items in one run: with \<open>reverse=True\<close> it
  reverses the list, finds the run the list starts with (\<open>count_run\<close>; a strictly descending
  run is reversed in place), inserts the remaining items one by one by binary search
  (\<open>binarysort\<close>), and reverses the list again, also when a comparison has raised.
  \<open>cpython_sort\<close> follows these steps; the second component of its result is the list as
  the sort leaves it. With 64 items or more CPython sorts runs of at least 32 items and
  merges them; that part is not modelled, and \<open>cpython_sort\<close> gives \<open>None\<close> there.
  \<open>cpython_left\<close> is the order left, for use as the parameter \<open>left\<close>: outside the
  modelled range it keeps the list as it is.
\<close>

definition doc_cmp :: "doc \<Rightarrow> doc \<Rightarrow> bool option" where
  "doc_cmp a b = py_lt (created_key a) (created_key b)"

fun run_len :: "bool \<Rightarrow> doc \<Rightarrow> doc list \<Rightarrow> nat option" where
  "run_len desc p [] = Some 0"
| "run_len desc p (x # xs) =
     (case doc_cmp x p of
        None \<Rightarrow> None
      | Some b \<Rightarrow> if b = desc then map_option Suc (run_len desc x xs) else Some 0)"

fun count_run :: "doc list \<Rightarrow> (nat \<times> bool) option" where
  "count_run (a # b # xs) =
     (case doc_cmp b a of
        None \<Rightarrow> None
      | Some desc \<Rightarrow> map_option (\<lambda>n. (n + 2, desc)) (run_len desc b xs))"
| "count_run xs = Some (length xs, False)"

function bsearch :: "doc \<Rightarrow> doc list \<Rightarrow> nat \<Rightarrow> nat \<Rightarrow> nat option" where
  "bsearch pivot xs l r =
     (if l < r then
        (let p = l + (r - l) div 2
         in case doc_cmp pivot (xs ! p) of
              None \<Rightarrow> None
            | Some True \<Rightarrow> bsearch pivot xs l p
            | Some False \<Rightarrow> bsearch pivot xs (p + 1) r)
      else Some l)"
  by pat_completeness auto
termination
  by (relation "measure (\<lambda>(pivot, xs, l, r). r - l)") auto

fun binarysort :: "doc list \<Rightarrow> doc list \<Rightarrow> exn option \<times> doc list" where
  "binarysort pre [] = (None, pre)"
| "binarysort pre (x # rest) =
     (case bsearch x pre 0 (length pre) of
        None \<Rightarrow> (Some TypeError, pre @ x # rest)
      | Some l \<Rightarrow> binarysort (take l pre @ x # drop l pre) rest)"

definition cpython_sort :: "doc list \<Rightarrow> (exn option \<times> doc list) option" where
  "cpython_sort ds =
     (if 64 \<le> length ds then None
      else if length ds < 2 then Some (None, ds)
      else
        let xs = rev ds
        in case count_run xs of
             None \<Rightarrow> Some (Some TypeError, rev xs)
           | Some (n, desc) \<Rightarrow>
               (case binarysort (if desc then rev (take n xs) else take n xs) (drop n xs) of
                  (e, ys) \<Rightarrow> Some (e, rev ys)))"

definition cpython_left :: "doc list \<Rightarrow> doc list" where
  "cpython_left ds = (case cpython_sort ds of None \<Rightarrow> ds | Some (e, ys) \<Rightarrow> ys)"

section \<open>Outline\<close>

text \<open>
  C1 (as amended). For every topic, \<open>generate_outline\<close> returns the first 4 base headings when
  the length is "short", the 6 base headings plus "Case Study: {topic} in Action" and
  "Resources & Next Steps" (8 in all) when it is "long", and the 6 base headings otherwise.
  Every outline begins with "Introduction"; the long one ends with "Resources & Next Steps",
  the 6-entry one with "Conclusion", and the short one with "Practical Tips for {topic}".
\<close>

theorem generate_outline_shape:
  "generate_outline topic ''short'' = take 4 (base topic)
   \<and> length (generate_outline topic ''short'') = 4
   \<and> generate_outline topic ''long'' =
       base topic @ [''Case Study: '' @ topic @ '' in Action'', ''Resources & Next Steps'']
   \<and> length (generate_outline topic ''long'') = 8
   \<and> (len \<noteq> ''short'' \<and> len \<noteq> ''long'' \<longrightarrow>
        generate_outline topic len = base topic \<and> length (generate_outline topic len) = 6
        \<and> last (generate_outline topic len) = ''Conclusion'')
   \<and> hd (generate_outline topic len) = ''Introduction''
   \<and> last (generate_outline topic ''long'') = ''Resources & Next Steps''
   \<and> last (generate_outline topic ''short'') = ''Practical Tips for '' @ topic"
  by (simp add: generate_outline_def base_def)

theorem generate_outline_shape_witness:
  "''medium'' \<noteq> ''short'' \<and> ''medium'' \<noteq> ''long''
   \<and> length (generate_outline ''Remote Work'' ''medium'') = 6
   \<and> last (generate_outline ''Remote Work'' ''medium'') = ''Conclusion''
   \<and> last (generate_outline ''Remote Work'' ''short'') = ''Practical Tips for Remote Work''"
  using generate_outline_shape [of "''Remote Work''" "''medium''"]
  by (simp add: generate_outline_def base_def)

text \<open>
  The short outline of the topic "AI" ends with "Practical Tips for AI", which is neither the
  conclusion heading nor the resource heading.
\<close>

theorem generate_outline_short_last_counterexample:
  "last (generate_outline ''AI'' ''short'') = ''Practical Tips for AI''
   \<and> last (generate_outline ''AI'' ''short'') \<noteq> ''Conclusion''
   \<and> last (generate_outline ''AI'' ''short'') \<noteq> ''Resources & Next Steps''"
  by (simp add: generate_outline_def base_def)

section \<open>Content\<close>

lemma content_loop_map:
  "content_loop topic tone audience keywords hs ps =
     ps @ map (\<lambda>h. ''## '' @ h @ nl @ nl @ generate_paragraph h topic tone audience keywords @ nl) hs"
  by (induction hs arbitrary: ps) simp_all

text \<open>
  C2. For every topic, tone, outline, audience and keyword list, \<open>generate_content\<close> emits one
  block per outline heading, in outline order: the list of blocks is the outline mapped to
  "## {heading}", a blank line, the paragraph of that heading and a line end, so it has as
  many blocks as the outline has headings. The content is the blocks joined by a line end,
  which leaves a blank line between one block and the next.
\<close>

theorem generate_content_blocks:
  "paragraphs_of topic tone outline audience keywords =
     map (\<lambda>h. ''## '' @ h @ nl @ nl @ generate_paragraph h topic tone audience keywords @ nl) outline
   \<and> length (paragraphs_of topic tone outline audience keywords) = length outline
   \<and> generate_content topic tone outline audience keywords =
       join nl (map (\<lambda>h. ''## '' @ h @ nl @ nl
                          @ generate_paragraph h topic tone audience keywords @ nl) outline)
   \<and> generate_content topic tone [] audience keywords = []
   \<and> generate_content topic tone [h] audience keywords =
       ''## '' @ h @ nl @ nl @ generate_paragraph h topic tone audience keywords @ nl
   \<and> generate_content topic tone (h # h' # hs) audience keywords =
       (''## '' @ h @ nl @ nl @ generate_paragraph h topic tone audience keywords @ nl)
       @ nl @ generate_content topic tone (h' # hs) audience keywords"
  by (simp add: generate_content_def paragraphs_of_def content_loop_map)

section \<open>Title\<close>

text \<open>
  C3. For every topic and tone, \<open>generate_title\<close> returns the prefix, a space and the topic;
  the prefix is "A Practical Guide to" for Professional, "Getting Started with" for Friendly,
  "In-Depth Look at" for Technical, "Why You Should Care About" for Persuasive, and the
  Professional prefix for every other tone. The function is total: no tone raises.
\<close>

theorem generate_title_prefix:
  "generate_title topic ''Professional'' = ''A Practical Guide to'' @ '' '' @ topic
   \<and> generate_title topic ''Friendly'' = ''Getting Started with'' @ '' '' @ topic
   \<and> generate_title topic ''Technical'' = ''In-Depth Look at'' @ '' '' @ topic
   \<and> generate_title topic ''Persuasive'' = ''Why You Should Care About'' @ '' '' @ topic
   \<and> (tone \<notin> {''Professional'', ''Friendly'', ''Technical'', ''Persuasive''} \<longrightarrow>
        generate_title topic tone = ''A Practical Guide to'' @ '' '' @ topic)"
  by (simp add: generate_title_def dict_get_def title_prefixes_def)

theorem generate_title_prefix_witness:
  "''Sarcastic'' \<notin> {''Professional'', ''Friendly'', ''Technical'', ''Persuasive''}
   \<and> generate_title ''Remote Work'' ''Sarcastic'' = ''A Practical Guide to Remote Work''"
  using generate_title_prefix [of "''Remote Work''" "''Sarcastic''"] by simp

section \<open>Trimming\<close>

lemma strip_ends:
  assumes "strip s \<noteq> []"
  shows "\<not> isspace (hd (strip s))" and "\<not> isspace (last (strip s))"
proof -
  let ?u = "dropWhile isspace s"
  let ?v = "dropWhile isspace (rev ?u)"
  have s: "strip s = rev ?v" by (simp add: strip_def)
  with assms have v: "?v \<noteq> []" by simp
  have u: "?u \<noteq> []"
  proof
    assume "?u = []"
    then have "?v = []" by (simp only: rev.simps dropWhile.simps)
    with v show False by simp
  qed
  from v have "\<not> isspace (hd ?v)" by (rule hd_dropWhile)
  then show "\<not> isspace (last (strip s))" using v by (simp add: s last_rev)
  have "last ?v = last (rev ?u)"
    using v by (metis last_appendR takeWhile_dropWhile_id)
  also have "\<dots> = hd ?u" using u by (simp add: last_rev)
  finally have "hd (strip s) = hd ?u" using v by (simp add: s hd_rev)
  moreover have "\<not> isspace (hd ?u)" using u by (rule hd_dropWhile)
  ultimately show "\<not> isspace (hd (strip s))" by simp
qed

lemma strip_strip:
  "strip (strip s) = strip s"
proof (cases "strip s = []")
  case True
  have "strip [] = []" by (simp add: strip_def)
  with True show ?thesis by simp
next
  case False
  let ?t = "strip s"
  from False have h: "\<not> isspace (hd ?t)" and l: "\<not> isspace (last ?t)"
    by (rule strip_ends)+
  have "dropWhile isspace ?t = ?t" using h by (simp add: dropWhile_eq_self_iff)
  moreover have "dropWhile isspace (rev ?t) = rev ?t"
    using l False by (simp add: dropWhile_eq_self_iff hd_rev)
  ultimately show ?thesis by (simp add: strip_def)
qed

lemma strip_not_blank:
  "strip s \<noteq> [] \<Longrightarrow> \<not> list_all isspace (strip s)"
  using strip_ends(1) [of s] by (cases "strip s") auto

section \<open>Generating a post\<close>

lemma create_document_cases:
  "create_document st t c p =
     (if available st
      then Inr (hexn 24 (next_id st),
             st\<lparr>documents := documents st @
                    [(c, post_to_doc p @ [(''created_at'', PDatetime t),
                                          (''_id'', PObjectId (hexn 24 (next_id st)))])],
                 next_id := Suc (next_id st)\<rparr>)
      else Inl StoreUnavailable)"
  by (simp add: create_document_def Let_def)

lemma generate_blog_Inr:
  assumes "generate_blog st t_store t_now req = (Inr resp, st')"
  shows "\<exists>post.
     create_document st t_store ''blogpost'' post = Inr (resp_id resp, st')
     \<and> available st \<and> strip (req_topic req) \<noteq> []
     \<and> post_topic post = strip (req_topic req)
     \<and> post_tone post = (if req_tone req \<noteq> [] then strip (req_tone req) else ''Professional'')
     \<and> post_length post =
         Some (let l = lower (case req_length req of
                                None \<Rightarrow> ''medium''
                              | Some l \<Rightarrow> if l \<noteq> [] then l else ''medium'')
               in if l \<notin> {''short'', ''medium'', ''long''} then ''medium'' else l)
     \<and> post_keywords post =
         map strip (filter (\<lambda>k. strip k \<noteq> [])
                      (case req_keywords req of None \<Rightarrow> [] | Some ks \<Rightarrow> ks))
     \<and> post_outline post = generate_outline (post_topic post) (the (post_length post))
     \<and> post_title post = generate_title (post_topic post) (post_tone post)
     \<and> post_content post =
         generate_content (post_topic post) (post_tone post) (post_outline post)
           (req_audience req) (post_keywords post)
     \<and> post_audience post = req_audience req
     \<and> post_status post = ''generated''
     \<and> resp_title resp = post_title post
     \<and> resp_outline resp = post_outline post
     \<and> resp_content resp = post_content post
     \<and> resp_topic resp = post_topic post
     \<and> resp_tone resp = post_tone post
     \<and> resp_keywords resp = post_keywords post
     \<and> resp_length resp = post_length post
     \<and> resp_audience resp = post_audience post
     \<and> resp_created_at resp = t_now"
proof -
  from assms have ok: "strip (req_topic req) \<noteq> []" "available st"
    by (auto simp: generate_blog_def Let_def create_document_cases split: if_splits)
  define topic where "topic = strip (req_topic req)"
  define tone where "tone = (if req_tone req \<noteq> [] then strip (req_tone req) else ''Professional'')"
  define len where "len = (let l = lower (case req_length req of
                                None \<Rightarrow> ''medium''
                              | Some l \<Rightarrow> if l \<noteq> [] then l else ''medium'')
               in if l \<notin> {''short'', ''medium'', ''long''} then ''medium'' else l)"
  define kws where "kws = map strip (filter (\<lambda>k. strip k \<noteq> [])
                      (case req_keywords req of None \<Rightarrow> [] | Some ks \<Rightarrow> ks))"
  define post where "post = \<lparr>post_title = generate_title topic tone, post_topic = topic,
      post_tone = tone, post_keywords = kws, post_outline = generate_outline topic len,
      post_content = generate_content topic tone (generate_outline topic len) (req_audience req) kws,
      post_length = Some len, post_audience = req_audience req, post_status = ''generated''\<rparr>"
  have "generate_blog st t_store t_now req =
      (case create_document st t_store ''blogpost'' post of
         Inl e \<Rightarrow> (Inl e, st)
       | Inr (new_id, st') \<Rightarrow>
           (Inr \<lparr>resp_id = new_id, resp_title = post_title post,
                resp_outline = post_outline post, resp_content = post_content post,
                resp_topic = post_topic post, resp_tone = post_tone post,
                resp_keywords = post_keywords post, resp_length = post_length post,
                resp_audience = post_audience post, resp_created_at = t_now\<rparr>, st'))"
    by (simp only: generate_blog_def Let_def post_def topic_def tone_def len_def kws_def
          ok(1) if_False BlogPost.select_convs)
  with assms ok(2) have
    "create_document st t_store ''blogpost'' post = Inr (resp_id resp, st')"
    "resp = \<lparr>resp_id = resp_id resp, resp_title = post_title post,
                resp_outline = post_outline post, resp_content = post_content post,
                resp_topic = post_topic post, resp_tone = post_tone post,
                resp_keywords = post_keywords post, resp_length = post_length post,
                resp_audience = post_audience post, resp_created_at = t_now\<rparr>"
    by (auto simp: create_document_cases)
  then have "create_document st t_store ''blogpost'' post = Inr (resp_id resp, st')"
    "resp_title resp = post_title post" "resp_outline resp = post_outline post"
    "resp_content resp = post_content post" "resp_topic resp = post_topic post"
    "resp_tone resp = post_tone post" "resp_keywords resp = post_keywords post"
    "resp_length resp = post_length post" "resp_audience resp = post_audience post"
    "resp_created_at resp = t_now"
    by (metis GenerateResponse.select_convs(2), metis GenerateResponse.select_convs(2),
        metis GenerateResponse.select_convs(3), metis GenerateResponse.select_convs(4),
        metis GenerateResponse.select_convs(5), metis GenerateResponse.select_convs(6),
        metis GenerateResponse.select_convs(7), metis GenerateResponse.select_convs(8),
        metis GenerateResponse.select_convs(9), metis GenerateResponse.select_convs(10))
  then show ?thesis
    using ok
    by (intro exI [of _ post])
       (simp add: post_def topic_def tone_def len_def kws_def)
qed

lemma generate_blog_succeeds:
  "strip (req_topic req) \<noteq> [] \<Longrightarrow> available st \<Longrightarrow>
   \<exists>resp st'. generate_blog st t_store t_now req = (Inr resp, st')"
  by (simp add: generate_blog_def Let_def create_document_cases)

lemma generate_outline_nonempty: "generate_outline topic len \<noteq> []"
  by (simp add: generate_outline_def base_def)

text \<open>
  C4. POST /api/generate fails with status 400 and the message "Topic cannot be empty" if and
  only if the topic is empty after trimming whitespace; in that case the store is left as it
  was, so no document is created.
\<close>

theorem generate_blog_empty_topic:
  "(fst (generate_blog st t_store t_now req) = Inl (HTTPException 400 ''Topic cannot be empty''))
     = (strip (req_topic req) = [])
   \<and> (strip (req_topic req) = [] \<longrightarrow> snd (generate_blog st t_store t_now req) = st)"
  by (simp add: generate_blog_def Let_def create_document_cases)

theorem generate_blog_empty_topic_witness:
  "strip (req_topic \<lparr>req_topic = ''   '', req_tone = ''Friendly'', req_keywords = None,
                     req_length = None, req_audience = None\<rparr>) = []
   \<and> generate_blog \<lparr>available = True, documents = [], next_id = 0\<rparr> 1 2
        \<lparr>req_topic = ''   '', req_tone = ''Friendly'', req_keywords = None,
         req_length = None, req_audience = None\<rparr>
      = (Inl (HTTPException 400 ''Topic cannot be empty''),
         \<lparr>available = True, documents = [], next_id = 0\<rparr>)"
  using generate_blog_empty_topic [of "\<lparr>available = True, documents = [], next_id = 0\<rparr>" 1 2
        "\<lparr>req_topic = ''   '', req_tone = ''Friendly'', req_keywords = None,
         req_length = None, req_audience = None\<rparr>"]
  by (simp add: strip_def isspace_def prod_eq_iff)

text \<open>
  C5 (as amended). The length of a request is lower-cased first (an absent or empty length
  counts as "medium"); when the lower-cased value is not one of short, medium, long it is
  replaced by "medium". Whatever the length is, a request with a non-empty topic is not
  rejected when the store is available, and the resulting value is the one used for the
  outline and carried by the post handed to the store and by the response.
\<close>

theorem generate_blog_length_coerced:
  assumes "strip (req_topic req) \<noteq> []" and "available st"
  shows "\<exists>resp st' post.
     generate_blog st t_store t_now req = (Inr resp, st')
     \<and> create_document st t_store ''blogpost'' post = Inr (resp_id resp, st')
     \<and> (let l = lower (case req_length req of
                         None \<Rightarrow> ''medium''
                       | Some l \<Rightarrow> if l \<noteq> [] then l else ''medium'');
             len = (if l \<in> {''short'', ''medium'', ''long''} then l else ''medium'')
         in post_length post = Some len
            \<and> post_outline post = generate_outline (strip (req_topic req)) len
            \<and> resp_length resp = Some len
            \<and> resp_outline resp = generate_outline (strip (req_topic req)) len)"
proof -
  from assms obtain resp st' where h: "generate_blog st t_store t_now req = (Inr resp, st')"
    using generate_blog_succeeds by blast
  from generate_blog_Inr [OF h] obtain post where
    p: "create_document st t_store ''blogpost'' post = Inr (resp_id resp, st')"
       "post_topic post = strip (req_topic req)"
       "post_length post =
         Some (let l = lower (case req_length req of
                                None \<Rightarrow> ''medium''
                              | Some l \<Rightarrow> if l \<noteq> [] then l else ''medium'')
               in if l \<notin> {''short'', ''medium'', ''long''} then ''medium'' else l)"
       "post_outline post = generate_outline (post_topic post) (the (post_length post))"
       "resp_outline resp = post_outline post" "resp_length resp = post_length post"
    by blast
  show ?thesis
    using h p by (intro exI [of _ resp] exI [of _ st'] exI [of _ post]) (simp add: Let_def)
qed

theorem generate_blog_length_coerced_witness:
  "strip (req_topic \<lparr>req_topic = ''AI'', req_tone = ''Friendly'', req_keywords = None,
                     req_length = Some ''huge'', req_audience = None\<rparr>) \<noteq> []
   \<and> available \<lparr>available = True, documents = [], next_id = 0\<rparr>
   \<and> (\<exists>resp st'.
        generate_blog \<lparr>available = True, documents = [], next_id = 0\<rparr> 1 2
          \<lparr>req_topic = ''AI'', req_tone = ''Friendly'', req_keywords = None,
           req_length = Some ''huge'', req_audience = None\<rparr> = (Inr resp, st')
        \<and> resp_length resp = Some ''medium''
        \<and> resp_outline resp = generate_outline ''AI'' ''medium'')"
proof -
  let ?rq = "\<lparr>req_topic = ''AI'', req_tone = ''Friendly'', req_keywords = None,
             req_length = Some ''huge'', req_audience = None\<rparr>"
  let ?st = "\<lparr>available = True, documents = [], next_id = 0\<rparr>"
  have s: "strip ''AI'' = ''AI''" by (simp add: strip_def isspace_def)
  have l: "lower ''huge'' = ''huge''" by (simp add: lower_def lower_char_def)
  have h1: "strip (req_topic ?rq) \<noteq> []" by (simp add: s)
  have h2: "available ?st" by simp
  from generate_blog_length_coerced [OF h1 h2, of 1 2]
  show ?thesis using h1 h2 by (auto simp: Let_def s l)
qed

text \<open>
  The length "SHORT" is not a member of {short, medium, long}, yet it is not coerced to
  "medium": the request is served with the length "short" and an outline of 4 headings.
\<close>

theorem generate_blog_uppercase_length_counterexample:
  "''SHORT'' \<notin> {''short'', ''medium'', ''long''}
   \<and> map_sum id resp_length
        (fst (generate_blog \<lparr>available = True, documents = [], next_id = 0\<rparr> 1 2
           \<lparr>req_topic = ''AI'', req_tone = ''Friendly'', req_keywords = None,
            req_length = Some ''SHORT'', req_audience = None\<rparr>)) = Inr (Some ''short'')
   \<and> map_sum id (\<lambda>r. length (resp_outline r))
        (fst (generate_blog \<lparr>available = True, documents = [], next_id = 0\<rparr> 1 2
           \<lparr>req_topic = ''AI'', req_tone = ''Friendly'', req_keywords = None,
            req_length = Some ''SHORT'', req_audience = None\<rparr>)) = Inr 4"
proof -
  have s: "strip ''AI'' = ''AI''" by (simp add: strip_def isspace_def)
  have l: "lower ''SHORT'' = ''short''" by code_simp
  show ?thesis
    by (simp add: generate_blog_def Let_def create_document_cases s l generate_outline_def base_def)
qed

text \<open>
  C6. The post that a successful POST /api/generate hands to the store has a non-empty
  outline; its keywords are the request's keywords trimmed, with the blank ones dropped, so
  none of them is empty or made of whitespace only, and each is already trimmed; its status
  is "generated".
\<close>

theorem generate_blog_post_invariant:
  assumes "generate_blog st t_store t_now req = (Inr resp, st')"
  shows "\<exists>post.
     create_document st t_store ''blogpost'' post = Inr (resp_id resp, st')
     \<and> post_outline post \<noteq> []
     \<and> post_keywords post =
         map strip (filter (\<lambda>k. strip k \<noteq> [])
                      (case req_keywords req of None \<Rightarrow> [] | Some ks \<Rightarrow> ks))
     \<and> (\<forall>k \<in> set (post_keywords post). k \<noteq> [] \<and> \<not> list_all isspace k \<and> strip k = k)
     \<and> post_status post = ''generated''"
proof -
  from generate_blog_Inr [OF assms] obtain post where
    p: "create_document st t_store ''blogpost'' post = Inr (resp_id resp, st')"
       "post_keywords post =
         map strip (filter (\<lambda>k. strip k \<noteq> [])
                      (case req_keywords req of None \<Rightarrow> [] | Some ks \<Rightarrow> ks))"
       "post_outline post = generate_outline (post_topic post) (the (post_length post))"
       "post_status post = ''generated''"
    by blast
  have "k \<noteq> [] \<and> \<not> list_all isspace k \<and> strip k = k" if "k \<in> set (post_keywords post)" for k
  proof -
    from that obtain k0 where "k = strip k0" "strip k0 \<noteq> []"
      by (auto simp: p(2))
    then show ?thesis by (simp add: strip_strip strip_not_blank)
  qed
  then have k: "\<forall>k \<in> set (post_keywords post). k \<noteq> [] \<and> \<not> list_all isspace k \<and> strip k = k"
    by blast
  have o: "post_outline post \<noteq> []"
    by (simp only: p(3) generate_outline_nonempty not_False_eq_True)
  from p(1) o p(2) k p(4) show ?thesis by blast
qed

theorem generate_blog_post_invariant_witness:
  "\<exists>resp st'.
     generate_blog \<lparr>available = True, documents = [], next_id = 0\<rparr> 1 2
       \<lparr>req_topic = ''AI'', req_tone = ''Friendly'', req_keywords = Some ['' a '', ''  '', ''b''],
        req_length = None, req_audience = None\<rparr> = (Inr resp, st')
     \<and> (\<exists>post.
          create_document \<lparr>available = True, documents = [], next_id = 0\<rparr> 1 ''blogpost'' post
            = Inr (resp_id resp, st')
          \<and> post_outline post \<noteq> []
          \<and> post_keywords post = [''a'', ''b'']
          \<and> post_status post = ''generated'')"
proof -
  let ?rq = "\<lparr>req_topic = ''AI'', req_tone = ''Friendly'',
             req_keywords = Some ['' a '', ''  '', ''b''],
             req_length = None, req_audience = None\<rparr>"
  let ?st = "\<lparr>available = True, documents = [], next_id = 0\<rparr>"
  have s: "strip ''AI'' = ''AI''" "strip '' a '' = ''a''" "strip ''  '' = []" "strip ''b'' = ''b''"
    by (simp_all add: strip_def isspace_def)
  have "strip (req_topic ?rq) \<noteq> []" "available ?st" by (simp_all add: s)
  then obtain resp st' where h: "generate_blog ?st 1 2 ?rq = (Inr resp, st')"
    using generate_blog_succeeds by blast
  from generate_blog_post_invariant [OF h] obtain post where
    p: "create_document ?st 1 ''blogpost'' post = Inr (resp_id resp, st')"
       "post_outline post \<noteq> []"
       "post_keywords post =
          map strip (filter (\<lambda>k. strip k \<noteq> [])
                       (case req_keywords ?rq of None \<Rightarrow> [] | Some ks \<Rightarrow> ks))"
       "post_status post = ''generated''"
    by blast
  from p(3) have "post_keywords post = [''a'', ''b'']" by (simp add: s)
  with h p(1,2,4) show ?thesis by blast
qed

text \<open>
  C10. For every successful POST /api/generate, the post handed to the store and the response
  carry the same title, outline, content, topic, tone, keywords, length and audience; the
  response adds the identifier the store returned and the creation time.
\<close>

theorem generate_blog_response_matches_post:
  assumes "generate_blog st t_store t_now req = (Inr resp, st')"
  shows "\<exists>post.
     create_document st t_store ''blogpost'' post = Inr (resp_id resp, st')
     \<and> resp_title resp = post_title post
     \<and> resp_outline resp = post_outline post
     \<and> resp_content resp = post_content post
     \<and> resp_topic resp = post_topic post
     \<and> resp_tone resp = post_tone post
     \<and> resp_keywords resp = post_keywords post
     \<and> resp_length resp = post_length post
     \<and> resp_audience resp = post_audience post
     \<and> resp_created_at resp = t_now"
proof -
  from generate_blog_Inr [OF assms] show ?thesis by blast
qed

theorem generate_blog_response_matches_post_witness:
  "\<exists>resp st'.
     generate_blog \<lparr>available = True, documents = [], next_id = 0\<rparr> 1 2
       \<lparr>req_topic = ''Remote Work'', req_tone = ''Friendly'', req_keywords = None,
        req_length = Some ''short'', req_audience = Some ''managers''\<rparr> = (Inr resp, st')
     \<and> (\<exists>post.
          create_document \<lparr>available = True, documents = [], next_id = 0\<rparr> 1 ''blogpost'' post
            = Inr (resp_id resp, st')
          \<and> resp_title resp = post_title post
          \<and> resp_outline resp = post_outline post
          \<and> resp_content resp = post_content post
          \<and> resp_topic resp = post_topic post
          \<and> resp_tone resp = post_tone post
          \<and> resp_keywords resp = post_keywords post
          \<and> resp_length resp = post_length post
          \<and> resp_audience resp = post_audience post
          \<and> resp_created_at resp = 2)"
proof -
  let ?rq = "\<lparr>req_topic = ''Remote Work'', req_tone = ''Friendly'', req_keywords = None,
        req_length = Some ''short'', req_audience = Some ''managers''\<rparr>"
  let ?st = "\<lparr>available = True, documents = [], next_id = 0\<rparr>"
  have "strip ''Remote Work'' \<noteq> []" by (simp add: strip_def isspace_def)
  then have "strip (req_topic ?rq) \<noteq> []" "available ?st" by simp_all
  then obtain resp st' where h: "generate_blog ?st 1 2 ?rq = (Inr resp, st')"
    using generate_blog_succeeds by blast
  from generate_blog_response_matches_post [OF h] h show ?thesis
    by blast
qed

section \<open>Listing posts\<close>












lemma mset_insort_lt: "mset (insort_lt lt x ys) = add_mset x (mset ys)"
  by (induction ys) auto

lemma mset_foldl_insort_lt:
  "mset (foldl (\<lambda>acc x. insort_lt lt x acc) acc xs) = mset acc + mset xs"
  by (induction xs arbitrary: acc) (simp_all add: mset_insort_lt)

lemma mset_stable_sort: "mset (stable_sort lt xs) = mset xs"
  by (simp add: stable_sort_def mset_foldl_insort_lt)





lemma list_posts_Inr:
  assumes "get_documents st ''blogpost'' [] limit = Inr docs"
  shows "list_posts left st limit = Inr (map clean_record (snd (list_sort left docs)))"
  using assms by (simp add: list_posts_def split: prod.splits)

lemma mset_left_by: "mset (left_by left ds) = mset ds"
  by (simp add: left_by_def)

lemma mset_list_sort: "mset (snd (list_sort left ds)) = mset ds"
  by (simp add: list_sort_def mset_stable_sort mset_left_by)

text \<open>The order that CPython's insertion leaves is a rearrangement of the list.\<close>

lemma mset_binarysort: "mset (snd (binarysort pre rest)) = mset pre + mset rest"
proof (induction rest arbitrary: pre)
  case Nil
  then show ?case by simp
next
  case (Cons x rest)
  show ?case
  proof (cases "bsearch x pre 0 (length pre)")
    case None
    then show ?thesis by simp
  next
    case (Some l)
    have "mset (take l pre) + mset (drop l pre) = mset pre"
      by (simp only: mset_append [symmetric] append_take_drop_id)
    then have "mset (take l pre @ x # drop l pre) = add_mset x (mset pre)"
      by simp
    with Some Cons.IH [of "take l pre @ x # drop l pre"] show ?thesis by simp
  qed
qed

lemma mset_cpython_left: "mset (cpython_left ds) = mset ds"
proof (cases "cpython_sort ds")
  case None
  then show ?thesis by (simp add: cpython_left_def)
next
  case (Some res)
  obtain e ys where res: "res = (e, ys)" by (cases res)
  have "mset ys = mset ds"
  proof (cases "length ds < 2")
    case True
    with Some res show ?thesis by (simp add: cpython_sort_def split: if_splits)
  next
    case False
    show ?thesis
    proof (cases "count_run (rev ds)")
      case None
      with Some res False show ?thesis
        by (simp add: cpython_sort_def split: if_splits)
    next
      case (Some nd)
      obtain n desc where nd: "nd = (n, desc)" by (cases nd)
      let ?xs = "rev ds"
      let ?pre = "if desc then rev (take n ?xs) else take n ?xs"
      obtain e' zs where b: "binarysort ?pre (drop n ?xs) = (e', zs)"
        by (cases "binarysort ?pre (drop n ?xs)")
      from mset_binarysort [of ?pre "drop n ?xs"] b
      have "mset zs = mset ?pre + mset (drop n ?xs)" by simp
      also have "\<dots> = mset (take n ?xs) + mset (drop n ?xs)" by simp
      also have "\<dots> = mset ds"
        by (simp only: mset_append [symmetric] append_take_drop_id mset_rev)
      finally have z: "mset zs = mset ds" .
      from \<open>cpython_sort ds = Some res\<close> res False Some nd b have "ys = rev zs"
        by (simp add: cpython_sort_def Let_def split: if_splits)
      with z show ?thesis by simp
    qed
  qed
  with Some res show ?thesis by (simp add: cpython_left_def)
qed

lemma left_by_cpython_left: "left_by cpython_left ds = cpython_left ds"
  by (simp add: left_by_def mset_cpython_left)




text \<open>
  Every document that \<open>create_document\<close> stores carries an identifier, so a store filled
  through it holds identified documents only.
\<close>

lemma create_document_identified:
  assumes "create_document st t c p = Inr (oid, st')"
    and "list_all (\<lambda>(c, d). \<exists>v. map_of d ''_id'' = Some v \<and> v \<noteq> PNone) (documents st)"
  shows "list_all (\<lambda>(c, d). \<exists>v. map_of d ''_id'' = Some v \<and> v \<noteq> PNone) (documents st')"
  using assms
  by (auto simp: create_document_cases post_to_doc_def split: if_splits)

text \<open>
  C8. Every record returned by GET /api/posts, for stored records that carry an identifier,
  has a field "id" whose value is a string, the rendering \<open>str\<close> of the stored identifier,
  and has no field "_id".
\<close>

theorem list_posts_id_field:
  assumes "get_documents st ''blogpost'' [] limit = Inr docs"
    and "mset (left docs) = mset docs"
    and "\<forall>d \<in> set docs. \<exists>v. map_of d ''_id'' = Some v \<and> v \<noteq> PNone"
  shows "\<exists>r. list_posts left st limit = Inr r
     \<and> (\<forall>d \<in> set r. map_of d ''_id'' = None \<and> (\<exists>s. map_of d ''id'' = Some (PStr s)))
     \<and> (\<forall>d \<in> set docs. \<forall>v. map_of d ''_id'' = Some v \<longrightarrow>
           clean_record d \<in> set r \<and> map_of (clean_record d) ''id'' = Some (PStr (py_str v)))"
proof -
  define r where "r = map clean_record (snd (list_sort left docs))"
  have res: "list_posts left st limit = Inr r"
    using list_posts_Inr [OF assms(1)] by (simp add: r_def)
  have "mset (snd (list_sort left docs)) = mset docs"
    by (rule mset_list_sort)
  then have "set (snd (list_sort left docs)) = set docs" by (rule mset_eq_setD)
  then have setr: "set r = clean_record ` set docs" by (simp add: r_def)
  have cl: "map_of (clean_record d) ''_id'' = None
            \<and> map_of (clean_record d) ''id'' = Some (PStr (py_str v))"
    if "map_of d ''_id'' = Some v" "v \<noteq> PNone" for d v
    using that by (simp add: clean_record_def update_conv' delete_conv')
  have a: "\<forall>d \<in> set r. map_of d ''_id'' = None \<and> (\<exists>s. map_of d ''id'' = Some (PStr s))"
  proof
    fix d assume "d \<in> set r"
    with setr obtain d0 where d0: "d0 \<in> set docs" "d = clean_record d0" by auto
    with assms(3) obtain v where "map_of d0 ''_id'' = Some v" "v \<noteq> PNone" by blast
    from cl [OF this] d0(2)
    show "map_of d ''_id'' = None \<and> (\<exists>s. map_of d ''id'' = Some (PStr s))" by simp
  qed
  have b: "\<forall>d \<in> set docs. \<forall>v. map_of d ''_id'' = Some v \<longrightarrow>
           clean_record d \<in> set r \<and> map_of (clean_record d) ''id'' = Some (PStr (py_str v))"
  proof (intro ballI allI impI)
    fix d v assume d: "d \<in> set docs" "map_of d ''_id'' = Some v"
    with assms(3) have "v \<noteq> PNone" by auto
    from cl [OF d(2) this] d(1) setr
    show "clean_record d \<in> set r \<and> map_of (clean_record d) ''id'' = Some (PStr (py_str v))"
      by simp
  qed
  from res a b show ?thesis by blast
qed

theorem list_posts_id_field_witness:
  "get_documents
     \<lparr>available = True,
      documents =
        [(''blogpost'', [(''_id'', PObjectId ''a1''), (''created_at'', PDatetime 5)]),
         (''blogpost'', [(''_id'', PObjectId ''a2''), (''created_at'', PDatetime 9)])],
      next_id = 2\<rparr> ''blogpost'' [] 10
     = Inr [[(''_id'', PObjectId ''a1''), (''created_at'', PDatetime 5)],
            [(''_id'', PObjectId ''a2''), (''created_at'', PDatetime 9)]]
   \<and> mset (cpython_left [[(''_id'', PObjectId ''a1''), (''created_at'', PDatetime 5)],
                          [(''_id'', PObjectId ''a2''), (''created_at'', PDatetime 9)]])
       = mset [[(''_id'', PObjectId ''a1''), (''created_at'', PDatetime 5)],
               [(''_id'', PObjectId ''a2''), (''created_at'', PDatetime 9)]]
   \<and> list_all (\<lambda>d. \<exists>v. map_of d ''_id'' = Some v \<and> v \<noteq> PNone)
        [[(''_id'', PObjectId ''a1''), (''created_at'', PDatetime 5)],
         [(''_id'', PObjectId ''a2''), (''created_at'', PDatetime 9)]]
   \<and> (\<exists>r. list_posts cpython_left
              \<lparr>available = True,
               documents =
                 [(''blogpost'', [(''_id'', PObjectId ''a1''), (''created_at'', PDatetime 5)]),
                  (''blogpost'', [(''_id'', PObjectId ''a2''), (''created_at'', PDatetime 9)])],
               next_id = 2\<rparr> 10 = Inr r
          \<and> list_all (\<lambda>d. map_of d ''_id'' = None \<and> (\<exists>s. map_of d ''id'' = Some (PStr s))) r)"
proof -
  let ?docs = "[[(''_id'', PObjectId ''a1''), (''created_at'', PDatetime 5)],
                [(''_id'', PObjectId ''a2''), (''created_at'', PDatetime 9)]]"
  let ?st = "\<lparr>available = True,
     documents =
       [(''blogpost'', [(''_id'', PObjectId ''a1''), (''created_at'', PDatetime 5)]),
        (''blogpost'', [(''_id'', PObjectId ''a2''), (''created_at'', PDatetime 9)])],
     next_id = 2\<rparr>"
  have h1: "get_documents ?st ''blogpost'' [] 10 = Inr ?docs"
    by (simp add: get_documents_def matches_def)
  have "cpython_left ?docs = rev ?docs" by code_simp
  then have h2: "mset (cpython_left ?docs) = mset ?docs" by (simp only: mset_rev)
  have a3: "list_all (\<lambda>d. \<exists>v. map_of d ''_id'' = Some v \<and> v \<noteq> PNone) ?docs" by simp
  then have h3: "\<forall>d \<in> set ?docs. \<exists>v. map_of d ''_id'' = Some v \<and> v \<noteq> PNone"
    by (simp only: list_all_iff)
  from list_posts_id_field [where left = cpython_left, OF h1 h2 h3]
  obtain r where r: "list_posts cpython_left ?st 10 = Inr r"
    "\<forall>d \<in> set r. map_of d ''_id'' = None \<and> (\<exists>s. map_of d ''id'' = Some (PStr s))"
    by blast
  from r(2) have "list_all (\<lambda>d. map_of d ''_id'' = None \<and> (\<exists>s. map_of d ''id'' = Some (PStr s))) r"
    by (simp only: list_all_iff)
  with h1 h2 a3 r(1) show ?thesis by blast
qed

text \<open>
  C9 (as amended). The sorting and cleanup steps of GET /api/posts never raise: whenever the
  store returns records the request completes. Its result is the identifier cleanup applied
  to a rearrangement of the retrieved records, so every retrieved record is returned once:
  the sorted list when no comparison fails, and otherwise the list in the order in which the
  interrupted sort left it, which need not be the store's.
\<close>

theorem list_posts_sort_swallowed:
  assumes "get_documents st ''blogpost'' [] limit = Inr docs"
  shows "\<exists>p. list_posts left st limit = Inr (map clean_record p)
     \<and> mset p = mset docs
     \<and> (sort_raises docs \<longrightarrow> p = left_by left docs)
     \<and> (\<not> sort_raises docs \<longrightarrow> p = rev (stable_sort doc_lt (rev docs)))"
proof -
  define p where "p = snd (list_sort left docs)"
  have "list_posts left st limit = Inr (map clean_record p)"
    using list_posts_Inr [OF assms] by (simp add: p_def)
  moreover have "mset p = mset docs"
    unfolding p_def by (rule mset_list_sort)
  moreover have "sort_raises docs \<longrightarrow> p = left_by left docs"
    by (simp add: p_def list_sort_def)
  moreover have "\<not> sort_raises docs \<longrightarrow> p = rev (stable_sort doc_lt (rev docs))"
    by (simp add: p_def list_sort_def)
  ultimately show ?thesis by blast
qed

theorem list_posts_sort_swallowed_witness:
  "get_documents
        \<lparr>available = True,
         documents =
           [(''blogpost'', [(''_id'', PObjectId ''a0''), (''created_at'', PStr ''soon'')]),
            (''blogpost'', [(''_id'', PObjectId ''a1''), (''created_at'', PDatetime 6)]),
            (''blogpost'', [(''_id'', PObjectId ''a2''), (''created_at'', PDatetime 4)]),
            (''blogpost'', [(''_id'', PObjectId ''a3''), (''created_at'', PDatetime 5)])],
         next_id = 4\<rparr> ''blogpost'' [] 10
       = Inr [[(''_id'', PObjectId ''a0''), (''created_at'', PStr ''soon'')],
              [(''_id'', PObjectId ''a1''), (''created_at'', PDatetime 6)],
              [(''_id'', PObjectId ''a2''), (''created_at'', PDatetime 4)],
              [(''_id'', PObjectId ''a3''), (''created_at'', PDatetime 5)]]
   \<and> sort_raises
        [[(''_id'', PObjectId ''a0''), (''created_at'', PStr ''soon'')],
         [(''_id'', PObjectId ''a1''), (''created_at'', PDatetime 6)],
         [(''_id'', PObjectId ''a2''), (''created_at'', PDatetime 4)],
         [(''_id'', PObjectId ''a3''), (''created_at'', PDatetime 5)]]
   \<and> list_posts cpython_left
        \<lparr>available = True,
         documents =
           [(''blogpost'', [(''_id'', PObjectId ''a0''), (''created_at'', PStr ''soon'')]),
            (''blogpost'', [(''_id'', PObjectId ''a1''), (''created_at'', PDatetime 6)]),
            (''blogpost'', [(''_id'', PObjectId ''a2''), (''created_at'', PDatetime 4)]),
            (''blogpost'', [(''_id'', PObjectId ''a3''), (''created_at'', PDatetime 5)])],
         next_id = 4\<rparr> 10
       = Inr (map clean_record
                [[(''_id'', PObjectId ''a0''), (''created_at'', PStr ''soon'')],
                 [(''_id'', PObjectId ''a1''), (''created_at'', PDatetime 6)],
                 [(''_id'', PObjectId ''a3''), (''created_at'', PDatetime 5)],
                 [(''_id'', PObjectId ''a2''), (''created_at'', PDatetime 4)]])
   \<and> mset [[(''_id'', PObjectId ''a0''), (''created_at'', PStr ''soon'')],
         [(''_id'', PObjectId ''a1''), (''created_at'', PDatetime 6)],
         [(''_id'', PObjectId ''a3''), (''created_at'', PDatetime 5)],
         [(''_id'', PObjectId ''a2''), (''created_at'', PDatetime 4)]]
       = mset [[(''_id'', PObjectId ''a0''), (''created_at'', PStr ''soon'')],
               [(''_id'', PObjectId ''a1''), (''created_at'', PDatetime 6)],
               [(''_id'', PObjectId ''a2''), (''created_at'', PDatetime 4)],
               [(''_id'', PObjectId ''a3''), (''created_at'', PDatetime 5)]]"
proof -
  let ?docs = "[[(''_id'', PObjectId ''a0''), (''created_at'', PStr ''soon'')],
                [(''_id'', PObjectId ''a1''), (''created_at'', PDatetime 6)],
                [(''_id'', PObjectId ''a2''), (''created_at'', PDatetime 4)],
                [(''_id'', PObjectId ''a3''), (''created_at'', PDatetime 5)]]"
  let ?st = "\<lparr>available = True,
         documents =
           [(''blogpost'', [(''_id'', PObjectId ''a0''), (''created_at'', PStr ''soon'')]),
            (''blogpost'', [(''_id'', PObjectId ''a1''), (''created_at'', PDatetime 6)]),
            (''blogpost'', [(''_id'', PObjectId ''a2''), (''created_at'', PDatetime 4)]),
            (''blogpost'', [(''_id'', PObjectId ''a3''), (''created_at'', PDatetime 5)])],
         next_id = 4\<rparr>"
  let ?p = "[[(''_id'', PObjectId ''a0''), (''created_at'', PStr ''soon'')],
             [(''_id'', PObjectId ''a1''), (''created_at'', PDatetime 6)],
             [(''_id'', PObjectId ''a3''), (''created_at'', PDatetime 5)],
             [(''_id'', PObjectId ''a2''), (''created_at'', PDatetime 4)]]"
  have h1: "get_documents ?st ''blogpost'' [] 10 = Inr ?docs"
    by (simp add: get_documents_def matches_def)
  have h2: "sort_raises ?docs" by code_simp
  have l: "cpython_left ?docs = ?p" by code_simp
  from list_posts_sort_swallowed [OF h1, of cpython_left] h2
  obtain p where p: "list_posts cpython_left ?st 10 = Inr (map clean_record p)"
    "mset p = mset ?docs" "p = left_by cpython_left ?docs"
    by blast
  from p(3) l have "p = ?p" by (simp only: left_by_cpython_left)
  with p(1,2) have "list_posts cpython_left ?st 10 = Inr (map clean_record ?p)"
    "mset ?p = mset ?docs"
    by simp_all
  with h1 h2 show ?thesis by blast
qed

text \<open>
  Four stored records, the first with a string as creation time, the others created at times
  2, 1 and 3. The comparison of a string with a time raises, but only after the sort has
  moved the three times into order: the request returns the records in the order
  string, 3, 2, 1 and not in the store's order string, 2, 1, 3.
\<close>

theorem list_posts_failed_sort_counterexample:
  "get_documents
     \<lparr>available = True,
      documents =
        [(''blogpost'', [(''_id'', PObjectId ''a0''), (''created_at'', PStr ''2024-05-01'')]),
         (''blogpost'', [(''_id'', PObjectId ''a1''), (''created_at'', PDatetime 2)]),
         (''blogpost'', [(''_id'', PObjectId ''a2''), (''created_at'', PDatetime 1)]),
         (''blogpost'', [(''_id'', PObjectId ''a3''), (''created_at'', PDatetime 3)])],
      next_id = 4\<rparr> ''blogpost'' [] 10
     = Inr [[(''_id'', PObjectId ''a0''), (''created_at'', PStr ''2024-05-01'')],
            [(''_id'', PObjectId ''a1''), (''created_at'', PDatetime 2)],
            [(''_id'', PObjectId ''a2''), (''created_at'', PDatetime 1)],
            [(''_id'', PObjectId ''a3''), (''created_at'', PDatetime 3)]]
   \<and> sort_raises
        [[(''_id'', PObjectId ''a0''), (''created_at'', PStr ''2024-05-01'')],
         [(''_id'', PObjectId ''a1''), (''created_at'', PDatetime 2)],
         [(''_id'', PObjectId ''a2''), (''created_at'', PDatetime 1)],
         [(''_id'', PObjectId ''a3''), (''created_at'', PDatetime 3)]]
   \<and> list_posts cpython_left
        \<lparr>available = True,
         documents =
           [(''blogpost'', [(''_id'', PObjectId ''a0''), (''created_at'', PStr ''2024-05-01'')]),
            (''blogpost'', [(''_id'', PObjectId ''a1''), (''created_at'', PDatetime 2)]),
            (''blogpost'', [(''_id'', PObjectId ''a2''), (''created_at'', PDatetime 1)]),
            (''blogpost'', [(''_id'', PObjectId ''a3''), (''created_at'', PDatetime 3)])],
         next_id = 4\<rparr> 10
     = Inr [[(''created_at'', PStr ''2024-05-01''), (''id'', PStr ''a0'')],
            [(''created_at'', PDatetime 3), (''id'', PStr ''a3'')],
            [(''created_at'', PDatetime 2), (''id'', PStr ''a1'')],
            [(''created_at'', PDatetime 1), (''id'', PStr ''a2'')]]
   \<and> list_posts cpython_left
        \<lparr>available = True,
         documents =
           [(''blogpost'', [(''_id'', PObjectId ''a0''), (''created_at'', PStr ''2024-05-01'')]),
            (''blogpost'', [(''_id'', PObjectId ''a1''), (''created_at'', PDatetime 2)]),
            (''blogpost'', [(''_id'', PObjectId ''a2''), (''created_at'', PDatetime 1)]),
            (''blogpost'', [(''_id'', PObjectId ''a3''), (''created_at'', PDatetime 3)])],
         next_id = 4\<rparr> 10
     \<noteq> Inr (map clean_record
              [[(''_id'', PObjectId ''a0''), (''created_at'', PStr ''2024-05-01'')],
               [(''_id'', PObjectId ''a1''), (''created_at'', PDatetime 2)],
               [(''_id'', PObjectId ''a2''), (''created_at'', PDatetime 1)],
               [(''_id'', PObjectId ''a3''), (''created_at'', PDatetime 3)]])"
  by code_simp

end
